theory Spec2Isabelle
  imports
    Main
    "HOL-Library.Multiset"
    "HOL-Library.Sublist"
    "HOL-Library.Char_ord"
    "HOL-Library.List_Lexorder"
    "HOL-Library.Product_Lexorder"
begin

section \<open>The two tables\<close>

text \<open>
  Modelled from the spec: the schema of the two tables, which the repository does not
  contain. The class \<^verbatim>\<open>sqlFunctions\<close> of \<^verbatim>\<open>sql.js\<close> names the columns in its
  statements (\<^verbatim>\<open>users\<close>: id, username, password, first_name, last_name;
  \<^verbatim>\<open>statistics\<close>: id, user_id, kills, date); the spec gives their types: integer ids
  and counts, strings, calendar dates without a time of day. No foreign key, cascade
  or uniqueness constraint is assumed: the spec leaves referential integrity to the
  store and says that deleting an account is not cascaded.

  The \<^verbatim>\<open>data\<close> object handed to \<^verbatim>\<open>createUser\<close> and \<^verbatim>\<open>updateUser\<close> carries the
  four string fields; a stored row carries them and the \<^verbatim>\<open>id\<close> column, written
  \<open>u_id\<close> and \<open>s_id\<close> here because the two tables share the column name. JavaScript
  numbers that hold integers are modelled by \<open>int\<close>.
\<close>

text \<open>A calendar date as (year, month, day); the order is the lexicographic one.\<close>

type_synonym caldate = "nat \<times> nat \<times> nat"

record user_data =
  username :: string
  password :: string
  first_name :: string
  last_name :: string

record user = user_data +
  u_id :: int

record statistic_data =
  user_id :: int
  kills :: int
  date :: caldate

record statistic = statistic_data +
  s_id :: int

text \<open>
  The store behind the pool: the rows of both tables in the store's own order (the order
  a \<^verbatim>\<open>SELECT\<close> without \<^verbatim>\<open>ORDER BY\<close> returns them in), the AUTO_INCREMENT counters,
  and the collation of the string columns. A collation is modelled by the weight it
  gives each character: the identity for a binary collation, a case fold for a
  case-insensitive one. String comparison by \<^verbatim>\<open>LIKE\<close> and by \<^verbatim>\<open>ORDER BY\<close> compares
  weights.
\<close>

record store =
  collation :: "char \<Rightarrow> char"
  users :: "user list"
  statistics :: "statistic list"
  users_auto_increment :: int
  statistics_auto_increment :: int

section \<open>Bound arguments, replies and failures\<close>

text \<open>The values the repository binds to the placeholders of a statement.\<close>

datatype arg = Str string | Num int | Date caldate

text \<open>
  What the driver resolves with: the rows of a \<^verbatim>\<open>SELECT\<close>, or the header of a write
  with its \<^verbatim>\<open>affectedRows\<close>.
\<close>

datatype reply =
  UserRows "user list"
  | StatisticRows "statistic list"
  | ResultSetHeader nat

text \<open>
  What the driver rejects with: a statement the store cannot parse, or arguments that
  do not fit the placeholders of the statement.
\<close>

datatype error = ER_PARSE_ERROR | ER_WRONG_ARGUMENTS

record request =
  sql :: string
  args :: "arg list"

section \<open>The \<^verbatim>\<open>LIKE\<close> operator\<close>

text \<open>
  A pattern is read left to right: \<^verbatim>\<open>%\<close> stands for any run of characters, \<^verbatim>\<open>_\<close> for
  exactly one character, and the escape character (a backslash, code 0x5C) makes the
  character after it literal; a backslash that ends the pattern stands for itself.
  All other characters stand for themselves, compared by collation weight.
\<close>

datatype like_token = Many | One | Lit char

fun like_tokens :: "string \<Rightarrow> like_token list" where
  "like_tokens [] = []"
| "like_tokens (c # cs) =
     (if c = CHR ''%'' then Many # like_tokens cs
      else if c = CHR ''_'' then One # like_tokens cs
      else if c = CHR 0x5C then
        (case cs of [] \<Rightarrow> [Lit c] | e # es \<Rightarrow> Lit e # like_tokens es)
      else Lit c # like_tokens cs)"

fun like_match :: "(char \<Rightarrow> char) \<Rightarrow> like_token list \<Rightarrow> string \<Rightarrow> bool" where
  "like_match w [] s = (s = [])"
| "like_match w (Many # ps) [] = like_match w ps []"
| "like_match w (Many # ps) (c # cs) =
     (like_match w ps (c # cs) \<or> like_match w (Many # ps) cs)"
| "like_match w (One # ps) [] = False"
| "like_match w (One # ps) (c # cs) = like_match w ps cs"
| "like_match w (Lit p # ps) [] = False"
| "like_match w (Lit p # ps) (c # cs) = (w p = w c \<and> like_match w ps cs)"

definition sql_like :: "(char \<Rightarrow> char) \<Rightarrow> string \<Rightarrow> string \<Rightarrow> bool" where
  "sql_like w subject pattern = like_match w (like_tokens pattern) subject"

section \<open>The statements of the repository and what the store does with them\<close>

text \<open>
  The statements \<^verbatim>\<open>sql.js\<close> submits, as the store parses them. A \<^verbatim>\<open>SELECT\<close> on
  \<^verbatim>\<open>users\<close> has a \<^verbatim>\<open>WHERE\<close> clause that is a conjunction of \<^verbatim>\<open>column LIKE ?\<close>
  tests (none for the plain listing) and may end in \<^verbatim>\<open>ORDER BY username ASC\<close>.
\<close>

datatype user_column = Username | First_name | Last_name

datatype statistic_filter = Every | Limit_Offset | Date_Equals | Date_Between

datatype statement =
  Insert_user
  | Update_user
  | Delete_user
  | Select_users "user_column list" bool
  | Delete_users_having_sum_below
  | Insert_statistic
  | Update_statistic
  | Delete_statistic
  | Select_statistics statistic_filter

definition prepare :: "string \<Rightarrow> statement option" where
  "prepare template =
    (if template = ''INSERT INTO users (username, password, first_name, last_name) VALUES (?, ?, ?, ?)''
       then Some Insert_user
     else if template = ''UPDATE users SET username = ?, password = ?, first_name = ?, last_name = ? WHERE id = ?''
       then Some Update_user
     else if template = ''DELETE FROM users WHERE id = ?''
       then Some Delete_user
     else if template = ''SELECT * FROM users''
       then Some (Select_users [] False)
     else if template = ''SELECT * FROM users ORDER BY username ASC''
       then Some (Select_users [] True)
     else if template = ''INSERT INTO statistics (user_id, kills, date) VALUES (?, ?, ?)''
       then Some Insert_statistic
     else if template = ''UPDATE statistics SET user_id = ?, kills = ?, date = ? WHERE id = ?''
       then Some Update_statistic
     else if template = ''DELETE FROM statistics WHERE id = ?''
       then Some Delete_statistic
     else if template = ''SELECT * FROM statistics''
       then Some (Select_statistics Every)
     else if template = ''SELECT * FROM statistics LIMIT ? OFFSET ?''
       then Some (Select_statistics Limit_Offset)
     else if template = ''SELECT * FROM statistics WHERE date = ?''
       then Some (Select_statistics Date_Equals)
     else if template = ''SELECT * FROM statistics WHERE date BETWEEN ? AND ?''
       then Some (Select_statistics Date_Between)
     else if template = ''SELECT * FROM users WHERE username LIKE ?''
       then Some (Select_users [Username] False)
     else if template = ''SELECT * FROM users WHERE username LIKE ? ORDER BY username ASC''
       then Some (Select_users [Username] True)
     else if template = ''\<newline>        SELECT * FROM users \<newline>        WHERE username LIKE ? \<newline>        AND first_name LIKE ? \<newline>        AND last_name LIKE ? \<newline>        ORDER BY username ASC\<newline>    ''
       then Some (Select_users [Username, First_name, Last_name] True)
     else if template = ''\<newline>            DELETE FROM users \<newline>            WHERE id IN (\<newline>                SELECT user_id \<newline>                FROM statistics \<newline>                GROUP BY user_id \<newline>                HAVING SUM(kills) < ?\<newline>            )\<newline>        ''
       then Some Delete_users_having_sum_below
     else None)"

subsection \<open>Rows of \<^verbatim>\<open>users\<close>\<close>

fun column :: "user_column \<Rightarrow> user \<Rightarrow> string" where
  "column Username u = username u"
| "column First_name u = first_name u"
| "column Last_name u = last_name u"

fun the_strings :: "arg list \<Rightarrow> string list option" where
  "the_strings [] = Some []"
| "the_strings (Str s # as) = map_option ((#) s) (the_strings as)"
| "the_strings (_ # as) = None"

text \<open>\<^verbatim>\<open>WHERE c1 LIKE ? AND c2 LIKE ? ...\<close>: every test of the conjunction holds.\<close>

definition where_like :: "(char \<Rightarrow> char) \<Rightarrow> (user_column \<times> string) list \<Rightarrow> user \<Rightarrow> bool" where
  "where_like w tests u = list_all (\<lambda>(c, p). sql_like w (column c u) p) tests"

text \<open>\<^verbatim>\<open>ORDER BY username ASC\<close>: ascending in the collation weights of the handle.\<close>

definition order_by_username :: "(char \<Rightarrow> char) \<Rightarrow> user list \<Rightarrow> user list" where
  "order_by_username w rows = sort_key (\<lambda>u. map w (username u)) rows"

definition select_users ::
  "store \<Rightarrow> user_column list \<Rightarrow> bool \<Rightarrow> arg list \<Rightarrow> error + reply \<times> store" where
  "select_users db cols ordered as =
    (case the_strings as of
       None \<Rightarrow> Inl ER_WRONG_ARGUMENTS
     | Some patterns \<Rightarrow>
         if length patterns \<noteq> length cols then Inl ER_WRONG_ARGUMENTS
         else
           let rows = filter (where_like (collation db) (zip cols patterns)) (users db)
           in Inr (UserRows (if ordered then order_by_username (collation db) rows else rows), db))"

fun insert_user :: "store \<Rightarrow> arg list \<Rightarrow> error + reply \<times> store" where
  "insert_user db [Str un, Str pw, Str fn, Str ln] =
     Inr (ResultSetHeader 1,
          db\<lparr>users := users db @
                [\<lparr>username = un, password = pw, first_name = fn, last_name = ln,
                  u_id = users_auto_increment db\<rparr>],
             users_auto_increment := users_auto_increment db + 1\<rparr>)"
| "insert_user db _ = Inl ER_WRONG_ARGUMENTS"

fun update_user :: "store \<Rightarrow> arg list \<Rightarrow> error + reply \<times> store" where
  "update_user db [Str un, Str pw, Str fn, Str ln, Num i] =
     Inr (ResultSetHeader (length (filter (\<lambda>u. u_id u = i) (users db))),
          db\<lparr>users :=
               map (\<lambda>u. if u_id u = i
                         then \<lparr>username = un, password = pw, first_name = fn, last_name = ln,
                               u_id = u_id u\<rparr>
                         else u)
                   (users db)\<rparr>)"
| "update_user db _ = Inl ER_WRONG_ARGUMENTS"

fun delete_user :: "store \<Rightarrow> arg list \<Rightarrow> error + reply \<times> store" where
  "delete_user db [Num i] =
     Inr (ResultSetHeader (length (filter (\<lambda>u. u_id u = i) (users db))),
          db\<lparr>users := filter (\<lambda>u. u_id u \<noteq> i) (users db)\<rparr>)"
| "delete_user db _ = Inl ER_WRONG_ARGUMENTS"

text \<open>
  \<^verbatim>\<open>SELECT user_id FROM statistics GROUP BY user_id HAVING SUM(kills) < ?\<close>: one group
  for each value of \<^verbatim>\<open>user_id\<close> that occurs in the table, kept when the sum of its
  \<^verbatim>\<open>kills\<close> is below the bound.
\<close>

definition group_sum :: "statistic list \<Rightarrow> int \<Rightarrow> int" where
  "group_sum rows g = sum_list (map kills (filter (\<lambda>s. user_id s = g) rows))"

definition groups_having_sum_below :: "statistic list \<Rightarrow> int \<Rightarrow> int list" where
  "groups_having_sum_below rows bound =
     filter (\<lambda>g. group_sum rows g < bound) (remdups (map user_id rows))"

text \<open>\<^verbatim>\<open>DELETE FROM users WHERE id IN (...)\<close>: only the table \<^verbatim>\<open>users\<close> is written.\<close>

fun delete_users_having_sum_below :: "store \<Rightarrow> arg list \<Rightarrow> error + reply \<times> store" where
  "delete_users_having_sum_below db [Num bound] =
     (let selected = groups_having_sum_below (statistics db) bound
      in Inr (ResultSetHeader (length (filter (\<lambda>u. u_id u \<in> set selected) (users db))),
              db\<lparr>users := filter (\<lambda>u. u_id u \<notin> set selected) (users db)\<rparr>))"
| "delete_users_having_sum_below db _ = Inl ER_WRONG_ARGUMENTS"

subsection \<open>Rows of \<^verbatim>\<open>statistics\<close>\<close>

fun insert_statistic :: "store \<Rightarrow> arg list \<Rightarrow> error + reply \<times> store" where
  "insert_statistic db [Num uid, Num k, Date d] =
     Inr (ResultSetHeader 1,
          db\<lparr>statistics := statistics db @
                [\<lparr>user_id = uid, kills = k, date = d, s_id = statistics_auto_increment db\<rparr>],
             statistics_auto_increment := statistics_auto_increment db + 1\<rparr>)"
| "insert_statistic db _ = Inl ER_WRONG_ARGUMENTS"

fun update_statistic :: "store \<Rightarrow> arg list \<Rightarrow> error + reply \<times> store" where
  "update_statistic db [Num uid, Num k, Date d, Num i] =
     Inr (ResultSetHeader (length (filter (\<lambda>s. s_id s = i) (statistics db))),
          db\<lparr>statistics :=
               map (\<lambda>s. if s_id s = i
                         then \<lparr>user_id = uid, kills = k, date = d, s_id = s_id s\<rparr>
                         else s)
                   (statistics db)\<rparr>)"
| "update_statistic db _ = Inl ER_WRONG_ARGUMENTS"

fun delete_statistic :: "store \<Rightarrow> arg list \<Rightarrow> error + reply \<times> store" where
  "delete_statistic db [Num i] =
     Inr (ResultSetHeader (length (filter (\<lambda>s. s_id s = i) (statistics db))),
          db\<lparr>statistics := filter (\<lambda>s. s_id s \<noteq> i) (statistics db)\<rparr>)"
| "delete_statistic db _ = Inl ER_WRONG_ARGUMENTS"

text \<open>
  The four \<^verbatim>\<open>SELECT\<close>s on \<^verbatim>\<open>statistics\<close>. None has an \<^verbatim>\<open>ORDER BY\<close>: rows come in
  the store's own order. \<^verbatim>\<open>LIMIT\<close> and \<^verbatim>\<open>OFFSET\<close> accept non-negative integers only;
  a negative one does not parse. \<^verbatim>\<open>BETWEEN a AND b\<close> is \<open>a \<le> date \<and> date \<le> b\<close>.
\<close>

fun select_statistics ::
  "store \<Rightarrow> statistic_filter \<Rightarrow> arg list \<Rightarrow> error + reply \<times> store" where
  "select_statistics db Every [] = Inr (StatisticRows (statistics db), db)"
| "select_statistics db Limit_Offset [Num limit, Num offset] =
     (if limit < 0 \<or> offset < 0 then Inl ER_PARSE_ERROR
      else Inr (StatisticRows (take (nat limit) (drop (nat offset) (statistics db))), db))"
| "select_statistics db Date_Equals [Date d] =
     Inr (StatisticRows (filter (\<lambda>s. date s = d) (statistics db)), db)"
| "select_statistics db Date_Between [Date a, Date b] =
     Inr (StatisticRows (filter (\<lambda>s. a \<le> date s \<and> date s \<le> b) (statistics db)), db)"
| "select_statistics db _ _ = Inl ER_WRONG_ARGUMENTS"

subsection \<open>The pool\<close>

fun execute :: "store \<Rightarrow> statement \<Rightarrow> arg list \<Rightarrow> error + reply \<times> store" where
  "execute db Insert_user as = insert_user db as"
| "execute db Update_user as = update_user db as"
| "execute db Delete_user as = delete_user db as"
| "execute db (Select_users cols ordered) as = select_users db cols ordered as"
| "execute db Delete_users_having_sum_below as = delete_users_having_sum_below db as"
| "execute db Insert_statistic as = insert_statistic db as"
| "execute db Update_statistic as = update_statistic db as"
| "execute db Delete_statistic as = delete_statistic db as"
| "execute db (Select_statistics f) as = select_statistics db f as"

definition pool_query :: "store \<Rightarrow> string \<Rightarrow> arg list \<Rightarrow> error + reply \<times> store" where
  "pool_query db template as =
     (case prepare template of
        None \<Rightarrow> Inl ER_PARSE_ERROR
      | Some st \<Rightarrow> execute db st as)"

section \<open>The class \<^verbatim>\<open>sqlFunctions\<close>\<close>

text \<open>
  \<^verbatim>\<open>query(sql, args)\<close> hands the statement and its arguments to the pool and settles
  the promise with what the pool calls back with: rejected with the error, or resolved
  with the rows. Every other method builds one \<open>request\<close> and returns
  \<^verbatim>\<open>this.query\<close> of it.
\<close>

definition query :: "store \<Rightarrow> request \<Rightarrow> error + reply \<times> store" where
  "query pool r =
     (case pool_query pool (sql r) (args r) of
        Inl err \<Rightarrow> Inl err
      | Inr rows \<Rightarrow> Inr rows)"

definition createUser :: "user_data \<Rightarrow> request" where
  "createUser data =
     \<lparr>sql = ''INSERT INTO users (username, password, first_name, last_name) VALUES (?, ?, ?, ?)'',
      args = [Str (username data), Str (password data), Str (first_name data), Str (last_name data)]\<rparr>"

definition updateUser :: "int \<Rightarrow> user_data \<Rightarrow> request" where
  "updateUser i data =
     \<lparr>sql = ''UPDATE users SET username = ?, password = ?, first_name = ?, last_name = ? WHERE id = ?'',
      args = [Str (username data), Str (password data), Str (first_name data), Str (last_name data),
              Num i]\<rparr>"

definition deleteUser :: "int \<Rightarrow> request" where
  "deleteUser i = \<lparr>sql = ''DELETE FROM users WHERE id = ?'', args = [Num i]\<rparr>"

text \<open>\<^verbatim>\<open>getAllUsers\<close> as the class of lines 95 to 210 of \<^verbatim>\<open>sql.js\<close> has it.\<close>

definition getAllUsers :: request where
  "getAllUsers = \<lparr>sql = ''SELECT * FROM users ORDER BY username ASC'', args = []\<rparr>"

text \<open>\<^verbatim>\<open>getAllUsers\<close> as the class of lines 5 to 88 of \<^verbatim>\<open>sql.js\<close> has it.\<close>

definition getAllUsers_first :: request where
  "getAllUsers_first = \<lparr>sql = ''SELECT * FROM users'', args = []\<rparr>"

definition createStatistic :: "statistic_data \<Rightarrow> request" where
  "createStatistic data =
     \<lparr>sql = ''INSERT INTO statistics (user_id, kills, date) VALUES (?, ?, ?)'',
      args = [Num (user_id data), Num (kills data), Date (date data)]\<rparr>"

definition updateStatistic :: "int \<Rightarrow> statistic_data \<Rightarrow> request" where
  "updateStatistic i data =
     \<lparr>sql = ''UPDATE statistics SET user_id = ?, kills = ?, date = ? WHERE id = ?'',
      args = [Num (user_id data), Num (kills data), Date (date data), Num i]\<rparr>"

definition deleteStatistic :: "int \<Rightarrow> request" where
  "deleteStatistic i = \<lparr>sql = ''DELETE FROM statistics WHERE id = ?'', args = [Num i]\<rparr>"

definition getAllStatistics :: request where
  "getAllStatistics = \<lparr>sql = ''SELECT * FROM statistics'', args = []\<rparr>"


definition searchStatisticsByDate :: "caldate \<Rightarrow> request" where
  "searchStatisticsByDate d =
     \<lparr>sql = ''SELECT * FROM statistics WHERE date = ?'', args = [Date d]\<rparr>"

definition searchStatisticsByDateRange :: "caldate \<Rightarrow> caldate \<Rightarrow> request" where
  "searchStatisticsByDateRange startDate endDate =
     \<lparr>sql = ''SELECT * FROM statistics WHERE date BETWEEN ? AND ?'',
      args = [Date startDate, Date endDate]\<rparr>"

text \<open>
  The search methods wrap the fragment in two \<^verbatim>\<open>%\<close> signs (the template literal
  \<^verbatim>\<open>`%${username}%`\<close>) and bind the result; the fragment itself is not changed.
\<close>

definition searchUserByUsername :: "string \<Rightarrow> request" where
  "searchUserByUsername un =
     \<lparr>sql = ''SELECT * FROM users WHERE username LIKE ? ORDER BY username ASC'',
      args = [Str (''%'' @ un @ ''%'')]\<rparr>"

text \<open>\<^verbatim>\<open>searchUserByUsername\<close> as the class of lines 5 to 88 has it.\<close>

definition searchUserByUsername_first :: "string \<Rightarrow> request" where
  "searchUserByUsername_first un =
     \<lparr>sql = ''SELECT * FROM users WHERE username LIKE ?'',
      args = [Str (''%'' @ un @ ''%'')]\<rparr>"

definition searchUserByDetails :: "string \<Rightarrow> string \<Rightarrow> string \<Rightarrow> request" where
  "searchUserByDetails un fn ln =
     \<lparr>sql = ''\<newline>        SELECT * FROM users \<newline>        WHERE username LIKE ? \<newline>        AND first_name LIKE ? \<newline>        AND last_name LIKE ? \<newline>        ORDER BY username ASC\<newline>    '',
      args = [Str (''%'' @ un @ ''%''), Str (''%'' @ fn @ ''%''), Str (''%'' @ ln @ ''%'')]\<rparr>"

definition deleteUsersWithLessThanKills :: "int \<Rightarrow> request" where
  "deleteUsersWithLessThanKills k =
     \<lparr>sql = ''\<newline>            DELETE FROM users \<newline>            WHERE id IN (\<newline>                SELECT user_id \<newline>                FROM statistics \<newline>                GROUP BY user_id \<newline>                HAVING SUM(kills) < ?\<newline>            )\<newline>        '',
      args = [Num k]\<rparr>"


section \<open>The driver: from template and bound values to the statement sent\<close>

text \<open>
  \<^verbatim>\<open>this.pool.query(sql, args, ...)\<close> does not send template and values apart: the driver
  writes the values into the template on the client and sends the resulting text. Its
  rules, as far as strings, integers and arrays of them go: each \<^verbatim>\<open>?\<close> takes the next
  value while values are left and the rest of the template is copied; a number is
  written in decimal; a string is put between single quotes, with a backslash before
  each quote, double quote and backslash and with NUL, backspace, tab, line feed,
  carriage return and 0x1A written as a backslash and one of \<^verbatim>\<open>0 b t n r Z\<close>; an array is written as its
  elements, each formatted by the same rules (a nested array between parentheses),
  separated by a comma and a space. Not modelled: \<^verbatim>\<open>??\<close> (an identifier placeholder,
  which no statement of \<^verbatim>\<open>sql.js\<close> has), and values that are objects, booleans,
  \<^verbatim>\<open>null\<close> or \<^verbatim>\<open>undefined\<close>.
\<close>

datatype js_value = JNumber int | JString string | JArray "js_value list"


function show_nat :: "nat \<Rightarrow> string" where
  "show_nat n =
     (if n < 10 then [''0123456789'' ! n]
      else show_nat (n div 10) @ [''0123456789'' ! (n mod 10)])"
  by pat_completeness auto
termination
  by (relation "measure (\<lambda>n. n)") auto

declare show_nat.simps [simp del]

definition show_int :: "int \<Rightarrow> string" where
  "show_int i = (if i < 0 then ''-'' @ show_nat (nat (- i)) else show_nat (nat i))"

definition escape_char :: "char \<Rightarrow> string" where
  "escape_char c =
     (if c = CHR 0x00 then [CHR 0x5C, CHR ''0'']
      else if c = CHR 0x08 then [CHR 0x5C, CHR ''b'']
      else if c = CHR 0x09 then [CHR 0x5C, CHR ''t'']
      else if c = CHR 0x0A then [CHR 0x5C, CHR ''n'']
      else if c = CHR 0x0D then [CHR 0x5C, CHR ''r'']
      else if c = CHR 0x1A then [CHR 0x5C, CHR ''Z'']
      else if c = CHR 0x22 then [CHR 0x5C, CHR 0x22]
      else if c = CHR 0x27 then [CHR 0x5C, CHR 0x27]
      else if c = CHR 0x5C then [CHR 0x5C, CHR 0x5C]
      else [c])"

definition escapeString :: "string \<Rightarrow> string" where
  "escapeString val = [CHR 0x27] @ concat (map escape_char val) @ [CHR 0x27]"

text \<open>\<open>arrayToList i\<close> is the driver's loop over an array from index \<open>i\<close> on.\<close>

fun escape :: "js_value \<Rightarrow> string"
  and arrayToList :: "nat \<Rightarrow> js_value list \<Rightarrow> string" where
  "escape (JNumber n) = show_int n"
| "escape (JString s) = escapeString s"
| "escape (JArray vs) = arrayToList 0 vs"
| "arrayToList i [] = []"
| "arrayToList i (JArray xs # vs) =
     (if i = 0 then [] else '', '') @ ''('' @ arrayToList 0 xs @ '')'' @ arrayToList (Suc i) vs"
| "arrayToList i (v # vs) =
     (if i = 0 then [] else '', '') @ escape v @ arrayToList (Suc i) vs"







subsection \<open>The structure of the statement sent\<close>










section \<open>Notions the requirements are stated in\<close>

text \<open>The summed count of an account over all of its activity records.\<close>

definition total_kills :: "store \<Rightarrow> user \<Rightarrow> int" where
  "total_kills db u = sum_list (map kills (filter (\<lambda>s. user_id s = u_id u) (statistics db)))"

text \<open>An account has at least one activity record.\<close>

definition has_statistics :: "store \<Rightarrow> user \<Rightarrow> bool" where
  "has_statistics db u = (u_id u \<in> user_id ` set (statistics db))"

text \<open>
  A fragment without the characters \<^verbatim>\<open>LIKE\<close> reads specially: \<^verbatim>\<open>%\<close>, \<^verbatim>\<open>_\<close> and the
  backslash.
\<close>

definition wildcard_free :: "string \<Rightarrow> bool" where
  "wildcard_free f = list_all (\<lambda>c. c \<noteq> CHR ''%'' \<and> c \<noteq> CHR ''_'' \<and> c \<noteq> CHR 0x5C) f"

text \<open>
  A field contains a fragment under a collation: the weights of the fragment occur as a
  contiguous run in the weights of the field. Under a binary collation this is the
  literal substring relation.
\<close>

definition contains_fragment :: "(char \<Rightarrow> char) \<Rightarrow> string \<Rightarrow> string \<Rightarrow> bool" where
  "contains_fragment w field f = sublist (map w f) (map w field)"

text \<open>The key \<^verbatim>\<open>ORDER BY username ASC\<close> sorts by.\<close>

definition handle_key :: "(char \<Rightarrow> char) \<Rightarrow> user \<Rightarrow> string" where
  "handle_key w u = map w (username u)"

section \<open>Stores used as examples\<close>

definition binary :: "char \<Rightarrow> char" where
  "binary c = c"

definition account :: "int \<Rightarrow> string \<Rightarrow> string \<Rightarrow> string \<Rightarrow> user" where
  "account i un fn ln =
     \<lparr>username = un, password = ''Secret123'', first_name = fn, last_name = ln, u_id = i\<rparr>"

definition activity :: "int \<Rightarrow> int \<Rightarrow> int \<Rightarrow> caldate \<Rightarrow> statistic" where
  "activity i uid k d = \<lparr>user_id = uid, kills = k, date = d, s_id = i\<rparr>"

text \<open>
  Three accounts: the first has three records that sum to 5, the second has none, the
  third has one record of 12. The five records are dated on five days in a row.
\<close>

definition kills_store :: store where
  "kills_store =
     \<lparr>collation = binary,
      users = [account 1 ''alice'' ''Alice'' ''Archer'', account 2 ''bob'' ''Bob'' ''Baker'',
               account 3 ''carol'' ''Carol'' ''Cook''],
      statistics = [activity 1 1 2 (2023, 12, 31), activity 2 1 2 (2024, 1, 1),
                    activity 3 3 12 (2024, 1, 2), activity 4 1 1 (2024, 1, 3),
                    activity 5 3 0 (2024, 1, 4)],
      users_auto_increment = 4,
      statistics_auto_increment = 6\<rparr>"

text \<open>The two accounts of the spec's example for the search by details, stored in the
  order in which they were inserted.\<close>

definition details_store :: store where
  "details_store =
     \<lparr>collation = binary,
      users = [account 1 ''alicia'' ''B'' ''Y'', account 2 ''alice'' ''A'' ''X''],
      statistics = [],
      users_auto_increment = 3,
      statistics_auto_increment = 1\<rparr>"

text \<open>One account, under any collation.\<close>

definition single_store :: "(char \<Rightarrow> char) \<Rightarrow> store" where
  "single_store w =
     \<lparr>collation = w,
      users = [account 1 ''bob'' ''Robert'' ''Smith''],
      statistics = [],
      users_auto_increment = 2,
      statistics_auto_increment = 1\<rparr>"

section \<open>What each statement does, one lemma for each method\<close>

lemma prepare_createUser: "prepare (sql (createUser data)) = Some Insert_user"
  by (simp add: prepare_def createUser_def)

lemma prepare_updateUser: "prepare (sql (updateUser i data)) = Some Update_user"
  by (simp add: prepare_def updateUser_def)

lemma prepare_deleteUser: "prepare (sql (deleteUser i)) = Some Delete_user"
  by (simp add: prepare_def deleteUser_def)

lemma prepare_getAllUsers: "prepare (sql getAllUsers) = Some (Select_users [] True)"
  by (simp add: prepare_def getAllUsers_def)

lemma prepare_getAllUsers_first: "prepare (sql getAllUsers_first) = Some (Select_users [] False)"
  by (simp add: prepare_def getAllUsers_first_def)

lemma prepare_createStatistic: "prepare (sql (createStatistic data)) = Some Insert_statistic"
  by (simp add: prepare_def createStatistic_def)

lemma prepare_updateStatistic: "prepare (sql (updateStatistic i data)) = Some Update_statistic"
  by (simp add: prepare_def updateStatistic_def)

lemma prepare_deleteStatistic: "prepare (sql (deleteStatistic i)) = Some Delete_statistic"
  by (simp add: prepare_def deleteStatistic_def)

lemma prepare_getAllStatistics: "prepare (sql getAllStatistics) = Some (Select_statistics Every)"
  by (simp add: prepare_def getAllStatistics_def)


lemma prepare_searchStatisticsByDate:
  "prepare (sql (searchStatisticsByDate d)) = Some (Select_statistics Date_Equals)"
  by (simp add: prepare_def searchStatisticsByDate_def)

lemma prepare_searchStatisticsByDateRange:
  "prepare (sql (searchStatisticsByDateRange a b)) = Some (Select_statistics Date_Between)"
  by (simp add: prepare_def searchStatisticsByDateRange_def)

lemma prepare_searchUserByUsername:
  "prepare (sql (searchUserByUsername un)) = Some (Select_users [Username] True)"
  by (simp add: prepare_def searchUserByUsername_def)

lemma prepare_searchUserByUsername_first:
  "prepare (sql (searchUserByUsername_first un)) = Some (Select_users [Username] False)"
  by (simp add: prepare_def searchUserByUsername_first_def)

lemma prepare_searchUserByDetails:
  "prepare (sql (searchUserByDetails un fn ln)) =
     Some (Select_users [Username, First_name, Last_name] True)"
  by (simp add: prepare_def searchUserByDetails_def)

lemma prepare_deleteUsersWithLessThanKills:
  "prepare (sql (deleteUsersWithLessThanKills k)) = Some Delete_users_having_sum_below"
  by (simp add: prepare_def deleteUsersWithLessThanKills_def)


lemma query_deleteUser:
  "query db (deleteUser i) =
     Inr (ResultSetHeader (length (filter (\<lambda>u. u_id u = i) (users db))),
          db\<lparr>users := filter (\<lambda>u. u_id u \<noteq> i) (users db)\<rparr>)"
  by (simp add: query_def pool_query_def prepare_deleteUser) (simp add: deleteUser_def)

lemma query_updateUser:
  "query db (updateUser i data) =
     Inr (ResultSetHeader (length (filter (\<lambda>u. u_id u = i) (users db))),
          db\<lparr>users :=
               map (\<lambda>u. if u_id u = i
                         then \<lparr>username = username data, password = password data,
                               first_name = first_name data, last_name = last_name data,
                               u_id = u_id u\<rparr>
                         else u)
                   (users db)\<rparr>)"
  by (simp add: query_def pool_query_def prepare_updateUser) (simp add: updateUser_def)

lemma query_deleteStatistic:
  "query db (deleteStatistic i) =
     Inr (ResultSetHeader (length (filter (\<lambda>s. s_id s = i) (statistics db))),
          db\<lparr>statistics := filter (\<lambda>s. s_id s \<noteq> i) (statistics db)\<rparr>)"
  by (simp add: query_def pool_query_def prepare_deleteStatistic) (simp add: deleteStatistic_def)

lemma query_updateStatistic:
  "query db (updateStatistic i data) =
     Inr (ResultSetHeader (length (filter (\<lambda>s. s_id s = i) (statistics db))),
          db\<lparr>statistics :=
               map (\<lambda>s. if s_id s = i
                         then \<lparr>user_id = user_id data, kills = kills data, date = date data,
                               s_id = s_id s\<rparr>
                         else s)
                   (statistics db)\<rparr>)"
  by (simp add: query_def pool_query_def prepare_updateStatistic) (simp add: updateStatistic_def)


lemma query_searchStatisticsByDateRange:
  "query db (searchStatisticsByDateRange a b) =
     Inr (StatisticRows (filter (\<lambda>s. a \<le> date s \<and> date s \<le> b) (statistics db)), db)"
  by (simp add: query_def pool_query_def prepare_searchStatisticsByDateRange)
     (simp add: searchStatisticsByDateRange_def)

lemma query_deleteUsersWithLessThanKills:
  "query db (deleteUsersWithLessThanKills k) =
     Inr (ResultSetHeader
            (length (filter (\<lambda>u. u_id u \<in> set (groups_having_sum_below (statistics db) k)) (users db))),
          db\<lparr>users := filter (\<lambda>u. u_id u \<notin> set (groups_having_sum_below (statistics db) k)) (users db)\<rparr>)"
  by (simp add: query_def pool_query_def prepare_deleteUsersWithLessThanKills)
     (simp add: deleteUsersWithLessThanKills_def Let_def)

lemma query_select_users:
  "prepare (sql r) = Some (Select_users cols ordered) \<Longrightarrow>
   query db r = select_users db cols ordered (args r)"
  by (simp add: query_def pool_query_def split: sum.splits)

lemma in_groups_having_sum_below:
  "g \<in> set (groups_having_sum_below rows bound) \<longleftrightarrow>
     g \<in> user_id ` set rows \<and> sum_list (map kills (filter (\<lambda>s. user_id s = g) rows)) < bound"
  by (auto simp: groups_having_sum_below_def group_sum_def)

lemma map_id_on: "(\<And>x. x \<in> set xs \<Longrightarrow> f x = x) \<Longrightarrow> map f xs = xs"
  by (induction xs) auto

lemma like_tokens_plain_append:
  "wildcard_free f \<Longrightarrow> like_tokens (f @ r) = map Lit f @ like_tokens r"
  by (induction f) (simp_all add: wildcard_free_def)

lemma like_match_Many_only: "like_match w [Many] s"
  by (induction s) simp_all

lemma like_match_literals_then_Many:
  "like_match w (map Lit f @ [Many]) s \<longleftrightarrow> prefix (map w f) (map w s)"
proof (induction f arbitrary: s)
  case Nil
  show ?case by (simp add: like_match_Many_only)
next
  case (Cons c f)
  show ?case by (cases s) (simp_all add: Cons.IH)
qed

lemma like_match_Many_first:
  "like_match w (Many # ps) s \<longleftrightarrow> (\<exists>t. suffix t s \<and> like_match w ps t)"
proof (induction s)
  case Nil
  show ?case by simp
next
  case (Cons c cs)
  show ?case by (auto simp add: Cons.IH suffix_Cons)
qed

lemma sublist_map_iff:
  "sublist xs (map w s) \<longleftrightarrow> (\<exists>t. suffix t s \<and> prefix xs (map w t))"
proof
  assume "sublist xs (map w s)"
  then obtain ps ss where eq: "map w s = ps @ xs @ ss" by (auto simp: sublist_def)
  have "drop (length ps) (map w s) = xs @ ss" by (simp add: eq)
  then have "map w (drop (length ps) s) = xs @ ss" by (simp add: drop_map)
  then have "suffix (drop (length ps) s) s \<and> prefix xs (map w (drop (length ps) s))"
    by (simp add: suffix_drop)
  then show "\<exists>t. suffix t s \<and> prefix xs (map w t)" ..
next
  assume "\<exists>t. suffix t s \<and> prefix xs (map w t)"
  then obtain t a zs where "s = a @ t" "map w t = xs @ zs"
    by (auto simp: suffix_def prefix_def)
  then have "map w s = map w a @ xs @ zs" by simp
  then show "sublist xs (map w s)" unfolding sublist_def by blast
qed



lemma sql_like_fragment:
  assumes "wildcard_free f"
  shows "sql_like w s (CHR ''%'' # f @ ''%'') \<longleftrightarrow> sublist (map w f) (map w s)"
proof -
  have "like_tokens (CHR ''%'' # f @ ''%'') = Many # map Lit f @ [Many]"
    using like_tokens_plain_append [OF assms, of "''%''"] by simp
  then show ?thesis
    by (simp add: sql_like_def like_match_Many_first like_match_literals_then_Many
          sublist_map_iff)
qed

lemma query_searchUserByUsername:
  "query db (searchUserByUsername f) =
     Inr (UserRows (order_by_username (collation db)
            (filter (\<lambda>u. sql_like (collation db) (username u) (''%'' @ f @ ''%'')) (users db))), db)"
  by (simp add: query_select_users [OF prepare_searchUserByUsername])
     (simp add: searchUserByUsername_def select_users_def where_like_def [abs_def])

lemma query_searchUserByDetails:
  "query db (searchUserByDetails un fn ln) =
     Inr (UserRows (order_by_username (collation db)
            (filter (\<lambda>u. sql_like (collation db) (username u) (''%'' @ un @ ''%'') \<and>
                         sql_like (collation db) (first_name u) (''%'' @ fn @ ''%'') \<and>
                         sql_like (collation db) (last_name u) (''%'' @ ln @ ''%'')) (users db))), db)"
  by (simp add: query_select_users [OF prepare_searchUserByDetails])
     (simp add: searchUserByDetails_def select_users_def where_like_def [abs_def])

lemma query_getAllUsers:
  "query db getAllUsers = Inr (UserRows (order_by_username (collation db) (users db)), db)"
  by (simp add: query_select_users [OF prepare_getAllUsers])
     (simp add: getAllUsers_def select_users_def where_like_def [abs_def])

lemma query_getAllUsers_first:
  "query db getAllUsers_first = Inr (UserRows (users db), db)"
  by (simp add: query_select_users [OF prepare_getAllUsers_first])
     (simp add: getAllUsers_first_def select_users_def where_like_def [abs_def])

lemma order_by_username_sorted:
  "sorted (map (\<lambda>u. map w (username u)) (order_by_username w rows))"
  by (simp add: order_by_username_def)

lemma order_by_username_mset: "mset (order_by_username w rows) = mset rows"
  by (simp add: order_by_username_def)


section \<open>The statement sent reads back as template and literals\<close>





























section \<open>The claims\<close>

text \<open>
  C1. For every threshold \<open>t\<close>, \<^verbatim>\<open>deleteUsersWithLessThanKills(t)\<close> succeeds and deletes
  exactly the accounts that have at least one activity record and whose counts, summed
  over all of their records, are strictly below \<open>t\<close>; every other account stays, in its
  place, and nothing else in the store changes. In particular an account without any
  activity record is never deleted, whatever \<open>t\<close> is.
\<close>

theorem deleteUsersWithLessThanKills_deletes_below_threshold:
  "\<exists>db'. query db (deleteUsersWithLessThanKills t) =
           Inr (ResultSetHeader
                  (length (filter (\<lambda>u. has_statistics db u \<and> total_kills db u < t) (users db))),
                db') \<and>
         db' = db\<lparr>users :=
                   filter (\<lambda>u. \<not> (has_statistics db u \<and> total_kills db u < t)) (users db)\<rparr> \<and>
         (\<forall>u \<in> set (users db). \<not> has_statistics db u \<longrightarrow> u \<in> set (users db'))"
  by (simp add: query_deleteUsersWithLessThanKills in_groups_having_sum_below
        has_statistics_def total_kills_def)

text \<open>
  The spec's example: with threshold 10 the account whose three records sum to 5 goes,
  the account without records and the account with a sum of 12 stay.
\<close>

theorem deleteUsersWithLessThanKills_deletes_below_threshold_witness:
  "\<exists>db'. query kills_store (deleteUsersWithLessThanKills 10) = Inr (ResultSetHeader 1, db') \<and>
         users db' = [account 2 ''bob'' ''Bob'' ''Baker'', account 3 ''carol'' ''Carol'' ''Cook'']"
  using deleteUsersWithLessThanKills_deletes_below_threshold [of kills_store 10]
  by (simp add: kills_store_def account_def activity_def has_statistics_def total_kills_def)

text \<open>
  C2, as stated: after the aggregate delete no activity record refers to a deleted
  account. It fails: the statement deletes from \<^verbatim>\<open>users\<close> only. In the example store
  account 1 is deleted and its three records are still there.
\<close>

theorem deleteUsersWithLessThanKills_orphans_counterexample:
  "query kills_store (deleteUsersWithLessThanKills 10) =
     Inr (ResultSetHeader 1,
          kills_store\<lparr>users := [account 2 ''bob'' ''Bob'' ''Baker'',
                                account 3 ''carol'' ''Carol'' ''Cook'']\<rparr>) \<and>
   map u_id (users (kills_store\<lparr>users := [account 2 ''bob'' ''Bob'' ''Baker'',
                                          account 3 ''carol'' ''Carol'' ''Cook'']\<rparr>)) = [2, 3] \<and>
   map user_id (statistics (kills_store\<lparr>users := [account 2 ''bob'' ''Bob'' ''Baker'',
                                                  account 3 ''carol'' ''Carol'' ''Cook'']\<rparr>)) =
     [1, 1, 3, 1, 3]"
  by (simp add: query_deleteUsersWithLessThanKills in_groups_having_sum_below)
     (simp add: kills_store_def account_def activity_def)

text \<open>
  C2, amended: the aggregate delete leaves the table of activity records as it was, so
  the records of a deleted account remain.
\<close>

theorem deleteUsersWithLessThanKills_keeps_statistics:
  "\<exists>n db'. query db (deleteUsersWithLessThanKills t) = Inr (ResultSetHeader n, db') \<and>
           statistics db' = statistics db"
  by (simp add: query_deleteUsersWithLessThanKills)

text \<open>
  C3, as stated: \<^verbatim>\<open>searchUserByDetails\<close> returns exactly the accounts whose three
  fields contain the three fragments as substrings. It fails for a fragment with a
  \<^verbatim>\<open>LIKE\<close> wildcard: the given name \<^verbatim>\<open>Robert\<close> does not contain \<^verbatim>\<open>R%t\<close>, and the
  account is returned.
\<close>

theorem searchUserByDetails_substring_counterexample:
  "query (single_store binary) (searchUserByDetails [] ''R%t'' []) =
     Inr (UserRows [account 1 ''bob'' ''Robert'' ''Smith''], single_store binary) \<and>
   first_name (account 1 ''bob'' ''Robert'' ''Smith'') = ''Robert'' \<and>
   \<not> sublist ''R%t'' ''Robert''"
  by (simp add: query_searchUserByDetails)
     (simp add: single_store_def account_def binary_def sql_like_def order_by_username_def
        sublist_code)

text \<open>
  C3, amended: for three fragments without \<^verbatim>\<open>%\<close>, \<^verbatim>\<open>_\<close> and backslash,
  \<^verbatim>\<open>searchUserByDetails\<close> returns exactly the accounts whose handle, given name and family
  name each contain the corresponding fragment (characters compared under the store's
  collation; the empty fragment is contained in every value), all three at once, ordered
  by handle ascending under that collation.
\<close>

theorem searchUserByDetails_conjunctive_substring:
  assumes "wildcard_free un" and "wildcard_free fn" and "wildcard_free ln"
  shows "\<exists>rows. query db (searchUserByDetails un fn ln) = Inr (UserRows rows, db) \<and>
           mset rows =
             mset (filter (\<lambda>u. contains_fragment (collation db) (username u) un \<and>
                                contains_fragment (collation db) (first_name u) fn \<and>
                                contains_fragment (collation db) (last_name u) ln)
                          (users db)) \<and>
           sorted (map (handle_key (collation db)) rows) \<and>
           contains_fragment (collation db) field []"
  using assms
  by (simp add: query_searchUserByDetails sql_like_fragment order_by_username_sorted
        order_by_username_mset contains_fragment_def handle_key_def [abs_def])

text \<open>
  The spec's example: of \<^verbatim>\<open>(alice, A, X)\<close> and \<^verbatim>\<open>(alicia, B, Y)\<close>, the fragments
  \<^verbatim>\<open>ali\<close> and \<^verbatim>\<open>A\<close> (and an empty third one) select the first account only.
\<close>

theorem searchUserByDetails_conjunctive_substring_witness:
  "wildcard_free ''ali'' \<and> wildcard_free ''A'' \<and> wildcard_free [] \<and>
   (\<exists>rows. query details_store (searchUserByDetails ''ali'' ''A'' []) =
              Inr (UserRows rows, details_store) \<and>
           mset rows = {#account 2 ''alice'' ''A'' ''X''#})"
proof -
  have free: "wildcard_free ''ali''" "wildcard_free ''A''" "wildcard_free []"
    by (simp_all add: wildcard_free_def)
  show ?thesis
    using searchUserByDetails_conjunctive_substring [OF free, of details_store]
    by (simp add: free)
       (simp add: details_store_def account_def binary_def contains_fragment_def sublist_code)
qed

text \<open>
  C4, as stated: \<^verbatim>\<open>searchUserByUsername\<close> returns exactly the accounts whose handle
  contains the fragment as a substring. It fails for a fragment with a wildcard: the
  handle \<^verbatim>\<open>bob\<close> does not contain \<^verbatim>\<open>_\<close>, and the account is returned.
\<close>

theorem searchUserByUsername_substring_counterexample:
  "query (single_store binary) (searchUserByUsername ''_'') =
     Inr (UserRows [account 1 ''bob'' ''Robert'' ''Smith''], single_store binary) \<and>
   username (account 1 ''bob'' ''Robert'' ''Smith'') = ''bob'' \<and>
   \<not> sublist ''_'' ''bob''"
  by (simp add: query_searchUserByUsername)
     (simp add: single_store_def account_def binary_def sql_like_def order_by_username_def
        sublist_code)

text \<open>
  C4, amended: for a fragment without \<^verbatim>\<open>%\<close>, \<^verbatim>\<open>_\<close> and backslash,
  \<^verbatim>\<open>searchUserByUsername\<close> returns exactly the accounts whose handle contains the
  fragment anywhere (characters compared under the store's collation), ordered by handle
  ascending under that collation; the empty fragment returns every account.
\<close>

theorem searchUserByUsername_substring:
  assumes "wildcard_free f"
  shows "\<exists>rows. query db (searchUserByUsername f) = Inr (UserRows rows, db) \<and>
           mset rows =
             mset (filter (\<lambda>u. contains_fragment (collation db) (username u) f) (users db)) \<and>
           sorted (map (handle_key (collation db)) rows) \<and>
           (f = [] \<longrightarrow> mset rows = mset (users db))"
  using assms
  by (auto simp add: query_searchUserByUsername sql_like_fragment order_by_username_sorted
        order_by_username_mset contains_fragment_def handle_key_def [abs_def])

theorem searchUserByUsername_substring_witness:
  "wildcard_free ''lic'' \<and>
   (\<exists>rows. query details_store (searchUserByUsername ''lic'') = Inr (UserRows rows, details_store) \<and>
           mset rows = {#account 1 ''alicia'' ''B'' ''Y'', account 2 ''alice'' ''A'' ''X''#} \<and>
           sorted (map (handle_key binary) rows))"
proof -
  have free: "wildcard_free ''lic''"
    by (simp add: wildcard_free_def)
  show ?thesis
    using searchUserByUsername_substring [OF free, of details_store]
    by (simp add: free)
       (simp add: details_store_def account_def binary_def contains_fragment_def sublist_code)
qed

text \<open>
  C5, as stated: \<^verbatim>\<open>getAllUsers\<close> returns every account ordered by handle. It fails for
  the \<^verbatim>\<open>getAllUsers\<close> of lines 45 to 48, whose statement has no \<^verbatim>\<open>ORDER BY\<close>: the rows
  come back in the store's order, here \<^verbatim>\<open>alicia\<close> before \<^verbatim>\<open>alice\<close>.
\<close>

theorem getAllUsers_first_unordered_counterexample:
  "query details_store getAllUsers_first =
     Inr (UserRows [account 1 ''alicia'' ''B'' ''Y'', account 2 ''alice'' ''A'' ''X''],
          details_store) \<and>
   \<not> sorted (map (handle_key (collation details_store))
                [account 1 ''alicia'' ''B'' ''Y'', account 2 ''alice'' ''A'' ''X''])"
  by (simp add: query_getAllUsers_first)
     (simp add: details_store_def account_def binary_def handle_key_def)

text \<open>
  C5, amended: the \<^verbatim>\<open>getAllUsers\<close> of lines 135 to 138 returns every account row, ordered
  by handle ascending under the store's collation; the \<^verbatim>\<open>getAllUsers\<close> of lines 45 to 48
  returns every account row in the store's own order.
\<close>

theorem getAllUsers_all_rows_ordered:
  "(\<exists>rows. query db getAllUsers = Inr (UserRows rows, db) \<and>
           mset rows = mset (users db) \<and>
           sorted (map (handle_key (collation db)) rows)) \<and>
   query db getAllUsers_first = Inr (UserRows (users db), db)"
  by (simp add: query_getAllUsers query_getAllUsers_first order_by_username_sorted
        order_by_username_mset handle_key_def [abs_def])

text \<open>
  C6. For \<open>startDate \<le> endDate\<close>, \<^verbatim>\<open>searchStatisticsByDateRange\<close> returns exactly the
  records dated from \<open>startDate\<close> to \<open>endDate\<close>, both days included, in the store's
  order; with the same day twice it returns the records of that day.
\<close>

theorem searchStatisticsByDateRange_inclusive:
  assumes "startDate \<le> endDate"
  shows "query db (searchStatisticsByDateRange startDate endDate) =
           Inr (StatisticRows
                  (filter (\<lambda>s. startDate \<le> date s \<and> date s \<le> endDate) (statistics db)), db) \<and>
         query db (searchStatisticsByDateRange startDate startDate) =
           Inr (StatisticRows (filter (\<lambda>s. date s = startDate) (statistics db)), db)"
  by (auto simp add: query_searchStatisticsByDateRange intro: filter_cong)

theorem searchStatisticsByDateRange_inclusive_witness:
  "((2024, 1, 1) :: caldate) \<le> (2024, 1, 3) \<and>
   query kills_store (searchStatisticsByDateRange (2024, 1, 1) (2024, 1, 3)) =
     Inr (StatisticRows [activity 2 1 2 (2024, 1, 1), activity 3 3 12 (2024, 1, 2),
                         activity 4 1 1 (2024, 1, 3)], kills_store) \<and>
   query kills_store (searchStatisticsByDateRange (2024, 1, 1) (2024, 1, 1)) =
     Inr (StatisticRows [activity 2 1 2 (2024, 1, 1)], kills_store)"
proof -
  have le: "((2024, 1, 1) :: caldate) \<le> (2024, 1, 3)"
    by simp
  have rows: "statistics kills_store =
      [activity 1 1 2 (2023, 12, 31), activity 2 1 2 (2024, 1, 1), activity 3 3 12 (2024, 1, 2),
       activity 4 1 1 (2024, 1, 3), activity 5 3 0 (2024, 1, 4)]"
    by (simp add: kills_store_def)
  show ?thesis
    using searchStatisticsByDateRange_inclusive [OF le, of kills_store]
    by (simp add: rows) (simp add: activity_def)
qed



text \<open>
  C8. When no row has the given id, \<^verbatim>\<open>updateUser\<close>, \<^verbatim>\<open>deleteUser\<close>,
  \<^verbatim>\<open>updateStatistic\<close> and \<^verbatim>\<open>deleteStatistic\<close> resolve (they do not reject) with zero
  affected rows and leave the store as it was. In particular a delete repeated on the
  store the first delete left resolves with zero affected rows.
\<close>

theorem no_match_is_success_without_effect:
  "((\<forall>u \<in> set (users db). u_id u \<noteq> i) \<longrightarrow>
      query db (updateUser i data) = Inr (ResultSetHeader 0, db) \<and>
      query db (deleteUser i) = Inr (ResultSetHeader 0, db)) \<and>
   ((\<forall>s \<in> set (statistics db). s_id s \<noteq> j) \<longrightarrow>
      query db (updateStatistic j sdata) = Inr (ResultSetHeader 0, db) \<and>
      query db (deleteStatistic j) = Inr (ResultSetHeader 0, db)) \<and>
   (\<exists>n db1. query db (deleteUser i) = Inr (ResultSetHeader n, db1) \<and>
             query db1 (deleteUser i) = Inr (ResultSetHeader 0, db1)) \<and>
   (\<exists>n db1. query db (deleteStatistic j) = Inr (ResultSetHeader n, db1) \<and>
             query db1 (deleteStatistic j) = Inr (ResultSetHeader 0, db1))"
  by (auto simp add: query_updateUser query_deleteUser query_updateStatistic
        query_deleteStatistic filter_empty_conv filter_id_conv map_id_on)

theorem no_match_is_success_without_effect_witness:
  "query kills_store
     (updateUser 7 \<lparr>username = ''dave'', password = ''Secret123'', first_name = ''Dave'',
                    last_name = ''Dean''\<rparr>) = Inr (ResultSetHeader 0, kills_store) \<and>
   query kills_store (deleteUser 7) = Inr (ResultSetHeader 0, kills_store) \<and>
   query kills_store (updateStatistic 9 \<lparr>user_id = 1, kills = 3, date = (2024, 1, 5)\<rparr>) =
     Inr (ResultSetHeader 0, kills_store) \<and>
   query kills_store (deleteStatistic 9) = Inr (ResultSetHeader 0, kills_store)"
proof -
  have "\<forall>u \<in> set (users kills_store). u_id u \<noteq> 7"
    by (simp add: kills_store_def account_def)
  moreover have "\<forall>s \<in> set (statistics kills_store). s_id s \<noteq> 9"
    by (simp add: kills_store_def activity_def)
  ultimately show ?thesis
    using no_match_is_success_without_effect [of kills_store 7 _ 9]
    by blast
qed




end
